theory Spec2Isabelle
  imports Complex_Main "HOL-Library.Word"
begin

section \<open>Numbers\<close>

text \<open>
  The source computes with the \<^verbatim>\<open>number\<close> type of TypeScript. The model keeps the three
  special values apart from the finite ones and gives every operator the result that
  ECMAScript defines on them (\<^verbatim>\<open>0/0\<close> is NaN, \<^verbatim>\<open>1/0\<close> is Infinity, \<^verbatim>\<open>Infinity * 0\<close> is NaN,
  every comparison with NaN is false). Two idealisations: a finite number is a real and
  the operators are exact on finite operands (no rounding, no overflow, no underflow), and
  zero carries no sign: a zero divisor counts as \<^verbatim>\<open>+0\<close>. The zero divisors that the
  lattice meets on the bodies of the factory are \<^verbatim>\<open>+0\<close>: a period of a radius 0, the sum
  \<^verbatim>\<open>1 + complexity\<close> and the length of an empty array.
\<close>

datatype number = Fin real | PInf | NInf | NaN

fun is_finite :: "number \<Rightarrow> bool" where
  "is_finite (Fin a) = True"
| "is_finite PInf = False"
| "is_finite NInf = False"
| "is_finite NaN = False"

fun is_pos :: "number \<Rightarrow> bool" where
  "is_pos (Fin a) = (0 \<le> a)"
| "is_pos PInf = True"
| "is_pos NInf = False"
| "is_pos NaN = False"

definition inf_of :: "bool \<Rightarrow> number" where
  "inf_of positive = (if positive then PInf else NInf)"

definition trunc :: "real \<Rightarrow> int" where
  "trunc a = (if 0 \<le> a then \<lfloor>a\<rfloor> else \<lceil>a\<rceil>)"

instantiation number :: "{plus, uminus, minus, times, inverse, modulo, ord}"
begin

fun plus_number :: "number \<Rightarrow> number \<Rightarrow> number" where
  "plus_number (Fin a) (Fin b) = Fin (a + b)"
| "plus_number NaN v = NaN"
| "plus_number u NaN = NaN"
| "plus_number PInf NInf = NaN"
| "plus_number NInf PInf = NaN"
| "plus_number PInf v = PInf"
| "plus_number u PInf = PInf"
| "plus_number NInf v = NInf"
| "plus_number u NInf = NInf"

fun uminus_number :: "number \<Rightarrow> number" where
  "uminus_number (Fin a) = Fin (- a)"
| "uminus_number PInf = NInf"
| "uminus_number NInf = PInf"
| "uminus_number NaN = NaN"

definition minus_number :: "number \<Rightarrow> number \<Rightarrow> number" where
  "minus_number u v = u + (- v)"

fun times_number :: "number \<Rightarrow> number \<Rightarrow> number" where
  "times_number (Fin a) (Fin b) = Fin (a * b)"
| "times_number NaN v = NaN"
| "times_number u NaN = NaN"
| "times_number (Fin a) v = (if a = 0 then NaN else inf_of ((0 < a) = is_pos v))"
| "times_number u (Fin b) = (if b = 0 then NaN else inf_of (is_pos u = (0 < b)))"
| "times_number u v = inf_of (is_pos u = is_pos v)"

fun divide_number :: "number \<Rightarrow> number \<Rightarrow> number" where
  "divide_number (Fin a) (Fin b) =
     (if b = 0 then (if a = 0 then NaN else inf_of (0 < a)) else Fin (a / b))"
| "divide_number NaN v = NaN"
| "divide_number u NaN = NaN"
| "divide_number (Fin a) v = Fin 0"
| "divide_number u (Fin b) = inf_of (is_pos u = (0 \<le> b))"
| "divide_number u v = NaN"

definition inverse_number :: "number \<Rightarrow> number" where
  "inverse_number u = divide (Fin 1) u"

text \<open>The remainder operator \<^verbatim>\<open>%\<close>: the result has the sign of the dividend.\<close>

fun modulo_number :: "number \<Rightarrow> number \<Rightarrow> number" where
  "modulo_number (Fin a) (Fin b) =
     (if b = 0 then NaN else Fin (a - b * of_int (trunc (a / b))))"
| "modulo_number NaN v = NaN"
| "modulo_number u NaN = NaN"
| "modulo_number (Fin a) v = Fin a"
| "modulo_number u v = NaN"

fun less_number :: "number \<Rightarrow> number \<Rightarrow> bool" where
  "less_number (Fin a) (Fin b) = (a < b)"
| "less_number NaN v = False"
| "less_number u NaN = False"
| "less_number PInf v = False"
| "less_number u NInf = False"
| "less_number u PInf = True"
| "less_number NInf v = True"

definition less_eq_number :: "number \<Rightarrow> number \<Rightarrow> bool" where
  "less_eq_number u v = (u < v \<or> (u = v \<and> u \<noteq> NaN))"

instance ..

end

text \<open>\<^verbatim>\<open>Math.sin\<close>, \<^verbatim>\<open>Math.cos\<close>, \<^verbatim>\<open>Math.sqrt\<close> and \<^verbatim>\<open>Math.pow\<close> with a finite exponent.\<close>

fun Math_sin :: "number \<Rightarrow> number" where
  "Math_sin (Fin a) = Fin (sin a)"
| "Math_sin u = NaN"

fun Math_cos :: "number \<Rightarrow> number" where
  "Math_cos (Fin a) = Fin (cos a)"
| "Math_cos u = NaN"

fun Math_sqrt :: "number \<Rightarrow> number" where
  "Math_sqrt (Fin a) = (if a < 0 then NaN else Fin (sqrt a))"
| "Math_sqrt PInf = PInf"
| "Math_sqrt u = NaN"

definition is_odd_integer :: "real \<Rightarrow> bool" where
  "is_odd_integer e = (e = of_int \<lfloor>e\<rfloor> \<and> odd \<lfloor>e\<rfloor>)"

fun Math_pow :: "number \<Rightarrow> real \<Rightarrow> number" where
  "Math_pow (Fin a) e =
     (if e = 0 then Fin 1
      else if a = 0 then (if 0 < e then Fin 0 else PInf)
      else if 0 < a then Fin (a powr e)
      else if e = of_int \<lfloor>e\<rfloor> then Fin ((if odd \<lfloor>e\<rfloor> then - 1 else 1) * (\<bar>a\<bar> powr e))
      else NaN)"
| "Math_pow PInf e = (if e = 0 then Fin 1 else if 0 < e then PInf else Fin 0)"
| "Math_pow NInf e =
     (if e = 0 then Fin 1
      else if 0 < e then (if is_odd_integer e then NInf else PInf)
      else Fin 0)"
| "Math_pow NaN e = (if e = 0 then Fin 1 else NaN)"

definition Math_PI :: number where
  "Math_PI = Fin pi"

section \<open>Decoding the hash\<close>

text \<open>
  A string is a list of characters, one per code unit (the code units below 256). The
  white space that \<^verbatim>\<open>parseInt\<close> skips is, among these, TAB, LF, VT, FF, CR, SP and NBSP.
\<close>

definition isWhiteSpace :: "char \<Rightarrow> bool" where
  "isWhiteSpace c = ((of_char c :: nat) \<in> {9, 10, 11, 12, 13, 32, 160})"

definition isHexDigit :: "char \<Rightarrow> bool" where
  "isHexDigit c =
     (let n = (of_char c :: nat)
      in (48 \<le> n \<and> n \<le> 57) \<or> (97 \<le> n \<and> n \<le> 102) \<or> (65 \<le> n \<and> n \<le> 70))"

definition digitValue :: "char \<Rightarrow> nat" where
  "digitValue c =
     (let n = (of_char c :: nat)
      in if 48 \<le> n \<and> n \<le> 57 then n - 48
         else if 97 \<le> n \<and> n \<le> 102 then n - 87
         else n - 55)"

text \<open>
  \<^verbatim>\<open>parseInt(s, 16)\<close>: skip leading white space, read one optional sign, skip one
  optional \<^verbatim>\<open>0x\<close> or \<^verbatim>\<open>0X\<close>, then read the longest run of hexadecimal digits. \<open>None\<close> is
  NaN (no digit was read).
\<close>

definition parseInt16 :: "string \<Rightarrow> int option" where
  "parseInt16 s =
     (let S = dropWhile isWhiteSpace s;
          negative = (S \<noteq> [] \<and> hd S = CHR ''-'');
          S1 = (if S \<noteq> [] \<and> (hd S = CHR ''+'' \<or> hd S = CHR ''-'') then tl S else S);
          S2 = (if take 2 S1 = ''0x'' \<or> take 2 S1 = ''0X'' then drop 2 S1 else S1);
          Z = takeWhile isHexDigit S2;
          mathInt = int (foldl (\<lambda>acc c. 16 * acc + digitValue c) 0 Z)
      in if Z = [] then None else Some (if negative then - mathInt else mathInt))"

text \<open>\<^verbatim>\<open>parseInt(...) || 0\<close>: NaN and 0 are falsy, so the result is 0 for both.\<close>

definition parseIntOr0 :: "string \<Rightarrow> int" where
  "parseIntOr0 s = (case parseInt16 s of None \<Rightarrow> 0 | Some v \<Rightarrow> v)"

definition substr :: "string \<Rightarrow> nat \<Rightarrow> nat \<Rightarrow> string" where
  "substr s start len = take len (drop start s)"

text \<open>\<^verbatim>\<open>hash.replace(/^(bafkrei|Qm|phash:)/, '')\<close>.\<close>

definition removePrefix :: "string \<Rightarrow> string" where
  "removePrefix hash =
     (if take 7 hash = ''bafkrei'' then drop 7 hash
      else if take 2 hash = ''Qm'' then drop 2 hash
      else if take 6 hash = ''phash:'' then drop 6 hash
      else hash)"

text \<open>
  The loop of \<^verbatim>\<open>hashToBuffer\<close>. A store into the \<^verbatim>\<open>Uint8Array\<close> keeps the value modulo 256
  (\<open>word_of_int\<close> into \<open>8 word\<close>); the index \<open>i div 2\<close> is below 32 whenever the loop
  condition holds.
\<close>

function fillBytes :: "string \<Rightarrow> nat \<Rightarrow> 8 word list \<Rightarrow> 8 word list" where
  "fillBytes cleanHash i bytes =
     (if i < min (length cleanHash) 64
      then fillBytes cleanHash (i + 2)
             (bytes[i div 2 := word_of_int (parseIntOr0 (substr cleanHash i 2))])
      else bytes)"
  by pat_completeness auto
termination
  by (relation "measure (\<lambda>(cleanHash, i, bytes). 64 - i)") auto

declare fillBytes.simps [simp del]

definition hashToBuffer :: "string \<Rightarrow> 8 word list" where
  "hashToBuffer hash = fillBytes (removePrefix hash) 0 (replicate 32 0)"

text \<open>\<^verbatim>\<open>view.getUint32(offset, true)\<close>: four bytes, least significant first.\<close>

definition getUint32 :: "8 word list \<Rightarrow> nat \<Rightarrow> 32 word" where
  "getUint32 buf offset =
     word_of_nat (unat (buf ! offset) + 2 ^ 8 * unat (buf ! (offset + 1))
       + 2 ^ 16 * unat (buf ! (offset + 2)) + 2 ^ 24 * unat (buf ! (offset + 3)))"

definition toNumber :: "32 word \<Rightarrow> number" where
  "toNumber w = Fin (real (unat w))"

section \<open>The orbital lattice\<close>

record OrbitalCoordinates =
  c_r :: number
  c_theta :: number
  c_phi :: number
  c_x :: number
  c_y :: number
  c_z :: number
  c_period :: number
  c_velocity :: number
  c_eccentricity :: number

definition BASE_ORBITS :: number where
  "BASE_ORBITS = Fin 432"

definition hashToOrbit :: "string \<Rightarrow> OrbitalCoordinates" where
  "hashToOrbit hash =
     (let view = hashToBuffer hash;
          r = (toNumber (getUint32 view 0) mod Fin 1000) / Fin 1000;
          theta = ((toNumber (getUint32 view 4) mod Fin 10000) / Fin 10000) * Fin 2 * Math_PI;
          phi = ((toNumber (getUint32 view 8) mod Fin 10000) / Fin 10000) * Fin 2 * Math_PI;
          eccentricity = (toNumber (getUint32 view 12) mod Fin 100) / Fin 100 * Fin (5 / 10);
          period = Math_sqrt (Math_pow r 3) * BASE_ORBITS;
          velocity = (Fin 2 * Math_PI * r) / period;
          x = r * Math_sin phi * Math_cos theta;
          y = r * Math_sin phi * Math_sin theta;
          z = r * Math_cos phi
      in \<lparr>c_r = r, c_theta = theta, c_phi = phi, c_x = x, c_y = y, c_z = z,
          c_period = period, c_velocity = velocity, c_eccentricity = eccentricity\<rparr>)"

text \<open>
  \<^verbatim>\<open>eigenvalues.map((eigen, i) => ...)\<close>: \<open>harmonic\<close> is the arrow function, applied to
  each eigenvalue with its index.
\<close>

definition harmonic :: "OrbitalCoordinates \<Rightarrow> number \<Rightarrow> number \<Rightarrow> nat \<Rightarrow> number" where
  "harmonic coords radiusScale eigen i =
     (let baseFreq = Fin 432;
          orbitalModifier = Math_sin (c_theta coords + Fin (real i))
                            * Math_cos (c_phi coords + Fin (real i));
          keplerFactor = Math_pow (c_r coords) (- (15 / 10))
      in baseFreq * eigen * radiusScale * (Fin 1 + orbitalModifier * Fin (1 / 10)) * keplerFactor)"

definition orbitalHarmonics :: "OrbitalCoordinates \<Rightarrow> number list \<Rightarrow> number list" where
  "orbitalHarmonics coords eigenvalues =
     (let radiusScale = Fin 1 / (Fin 1 + c_r coords)
      in map (\<lambda>(eigen, i). harmonic coords radiusScale eigen i)
           (zip eigenvalues [0 ..< length eigenvalues]))"

type_synonym Color = "real \<times> real \<times> real"

definition orbitalColor :: "OrbitalCoordinates \<Rightarrow> Color" where
  "orbitalColor coords =
     (let r = c_r coords
      in if r < Fin (2 / 10) then (7 / 10, 7 / 10, 1)
         else if r < Fin (4 / 10) then (1, 1, 1)
         else if r < Fin (6 / 10) then (1, 1, 7 / 10)
         else if r < Fin (8 / 10) then (1, 7 / 10, 4 / 10)
         else (1, 4 / 10, 4 / 10))"

record CelestialBody =
  cid :: string
  soul :: string
  coordinates :: OrbitalCoordinates
  harmonics :: "number list"
  luminosity :: number
  color :: Color
  melody :: "number list"

text \<open>
  \<open>InvalidInput\<close> is the error the specification names for the factory. The source of
  \<^verbatim>\<open>createCelestialBody\<close> has no \<^verbatim>\<open>throw\<close>, and nothing it calls can throw on a string
  and an array of numbers (\<^verbatim>\<open>reduce\<close> is given the initial value 0), so every path of the
  model returns \<open>Inr\<close>.
\<close>

datatype error = InvalidInput

definition createCelestialBody ::
    "string \<Rightarrow> string \<Rightarrow> number list \<Rightarrow> error + CelestialBody" where
  "createCelestialBody contentId proteinHash eigenvalues =
     (let coords = hashToOrbit proteinHash;
          freqs = orbitalHarmonics coords eigenvalues;
          col = orbitalColor coords;
          complexity = foldl (+) (Fin 0) eigenvalues / Fin (real (length eigenvalues));
          lum = Fin 1 / (Fin 1 + complexity)
      in Inr \<lparr>cid = contentId, soul = proteinHash, coordinates = coords,
               harmonics = eigenvalues, luminosity = lum, color = col, melody = freqs\<rparr>)"

text \<open>\<^verbatim>\<open>pos1.distanceTo(pos2)\<close> of three.js: the root of the sum of the squared differences.\<close>

definition distanceTo :: "CelestialBody \<Rightarrow> CelestialBody \<Rightarrow> number" where
  "distanceTo body1 body2 =
     (let dx = c_x (coordinates body1) - c_x (coordinates body2);
          dy = c_y (coordinates body1) - c_y (coordinates body2);
          dz = c_z (coordinates body1) - c_z (coordinates body2)
      in Math_sqrt (dx * dx + dy * dy + dz * dz))"

definition gravitationalPull :: "CelestialBody \<Rightarrow> CelestialBody \<Rightarrow> number" where
  "gravitationalPull body1 body2 =
     (let distance = distanceTo body1 body2
      in if distance = Fin 0 then PInf
         else let G = Fin 1; mass1 = luminosity body1; mass2 = luminosity body2
              in (G * mass1 * mass2) / (distance * distance))"

definition sphericalToOrbital :: "number \<Rightarrow> number \<Rightarrow> number \<Rightarrow> OrbitalCoordinates" where
  "sphericalToOrbital r theta phi =
     (let period = Math_sqrt (Math_pow r 3) * BASE_ORBITS;
          velocity = (Fin 2 * Math_PI * r) / period
      in \<lparr>c_r = r,
          c_theta = theta mod (Fin 2 * Math_PI),
          c_phi = phi mod (Fin 2 * Math_PI),
          c_x = r * Math_sin phi * Math_cos theta,
          c_y = r * Math_sin phi * Math_sin theta,
          c_z = r * Math_cos phi,
          c_period = period, c_velocity = velocity, c_eccentricity = Fin 0\<rparr>)"

definition findLagrangePoints :: "CelestialBody \<Rightarrow> OrbitalCoordinates list" where
  "findLagrangePoints primaryBody =
     (let r = c_r (coordinates primaryBody);
          theta = c_theta (coordinates primaryBody);
          phi = c_phi (coordinates primaryBody)
      in [sphericalToOrbital (r * Fin (9 / 10)) theta phi,
          sphericalToOrbital (r * Fin (11 / 10)) theta phi,
          sphericalToOrbital r (theta + Math_PI) phi,
          sphericalToOrbital r (theta + Math_PI / Fin 3) phi,
          sphericalToOrbital r (theta - Math_PI / Fin 3) phi])"

section \<open>Export and import\<close>

text \<open>
  \<^verbatim>\<open>exportState\<close> writes the stored bodies as JSON text and \<^verbatim>\<open>importState\<close> reads such a
  text back and hands the \<^verbatim>\<open>cid\<close>, \<^verbatim>\<open>soul\<close> and \<^verbatim>\<open>harmonics\<close> of every entry to the factory.
  The types of TypeScript do not exist at run time: an array that comes out of
  \<^verbatim>\<open>JSON.parse\<close> holds \<^verbatim>\<open>null\<close> wherever the exported number was not finite. A \<open>jsvalue\<close>
  is an element of such an array.
\<close>

datatype jsvalue = Num number | Null

text \<open>\<^verbatim>\<open>ToNumber\<close>, which the arithmetic operators apply to an operand: \<^verbatim>\<open>null\<close> counts as 0.\<close>

fun ToNumber :: "jsvalue \<Rightarrow> number" where
  "ToNumber (Num u) = u"
| "ToNumber Null = Fin 0"

text \<open>
  \<^verbatim>\<open>JSON.parse(JSON.stringify(v))\<close> for a number or \<^verbatim>\<open>null\<close>: a finite number is written as
  a decimal that reads back as the same number (a negative zero as zero, which the model
  does not tell apart); NaN, Infinity and -Infinity are written as \<^verbatim>\<open>null\<close>. A string
  comes back unchanged.
\<close>

fun viaJSON :: "jsvalue \<Rightarrow> jsvalue" where
  "viaJSON (Num (Fin a)) = Num (Fin a)"
| "viaJSON v = Null"

text \<open>
  A body as the orrery holds it at run time: the fields of \<^verbatim>\<open>CelestialBody\<close>, with the
  harmonics as the array that was passed in, which may hold \<^verbatim>\<open>null\<close>.
\<close>

record StoredBody =
  s_cid :: string
  s_soul :: string
  s_coordinates :: OrbitalCoordinates
  s_harmonics :: "jsvalue list"
  s_luminosity :: number
  s_color :: Color
  s_melody :: "number list"

definition asStored :: "CelestialBody \<Rightarrow> StoredBody" where
  "asStored body =
     \<lparr>s_cid = cid body, s_soul = soul body, s_coordinates = coordinates body,
      s_harmonics = map Num (harmonics body), s_luminosity = luminosity body,
      s_color = color body, s_melody = melody body\<rparr>"

text \<open>
  \<^verbatim>\<open>createCelestialBody\<close> on an array of run-time values: the product \<^verbatim>\<open>baseFreq * eigen\<close> in
  \<^verbatim>\<open>orbitalHarmonics\<close> and the sum \<^verbatim>\<open>a + b\<close> in \<^verbatim>\<open>reduce\<close> convert the element to a number,
  and the array itself is stored as the harmonics.
\<close>

definition createCelestialBody_rt ::
    "string \<Rightarrow> string \<Rightarrow> jsvalue list \<Rightarrow> error + StoredBody" where
  "createCelestialBody_rt contentId proteinHash eigenvalues =
     (let coords = hashToOrbit proteinHash;
          freqs = orbitalHarmonics coords (map ToNumber eigenvalues);
          col = orbitalColor coords;
          complexity = foldl (\<lambda>a b. a + ToNumber b) (Fin 0) eigenvalues
                         / Fin (real (length eigenvalues));
          lum = Fin 1 / (Fin 1 + complexity)
      in Inr \<lparr>s_cid = contentId, s_soul = proteinHash, s_coordinates = coords,
               s_harmonics = eigenvalues, s_luminosity = lum, s_color = col,
               s_melody = freqs\<rparr>)"

text \<open>
  One entry of the JSON document that \<^verbatim>\<open>exportState\<close> returns (the timestamp of the
  document is left out): the object
  \<^verbatim>\<open>{cid, soul: body.soul, coordinates: body.coordinates, harmonics: body.harmonics,
  luminosity: body.luminosity}\<close> after \<^verbatim>\<open>JSON.stringify\<close> and \<^verbatim>\<open>JSON.parse\<close>.
\<close>

record JsonEntry =
  j_cid :: string
  j_soul :: string
  j_coordinates :: "(string \<times> jsvalue) list"
  j_harmonics :: "jsvalue list"
  j_luminosity :: jsvalue

definition jsonCoordinates :: "OrbitalCoordinates \<Rightarrow> (string \<times> jsvalue) list" where
  "jsonCoordinates c =
     [(''r'', viaJSON (Num (c_r c))), (''theta'', viaJSON (Num (c_theta c))),
      (''phi'', viaJSON (Num (c_phi c))), (''x'', viaJSON (Num (c_x c))),
      (''y'', viaJSON (Num (c_y c))), (''z'', viaJSON (Num (c_z c))),
      (''period'', viaJSON (Num (c_period c))), (''velocity'', viaJSON (Num (c_velocity c))),
      (''eccentricity'', viaJSON (Num (c_eccentricity c)))]"

definition exportEntry :: "string \<times> StoredBody \<Rightarrow> JsonEntry" where
  "exportEntry entry =
     (case entry of (key, body) \<Rightarrow>
        \<lparr>j_cid = key, j_soul = s_soul body,
         j_coordinates = jsonCoordinates (s_coordinates body),
         j_harmonics = map viaJSON (s_harmonics body),
         j_luminosity = viaJSON (Num (s_luminosity body))\<rparr>)"

text \<open>
  The state of a \<^verbatim>\<open>CosmicOrrery\<close> that export and import touch: its map of bodies (a
  \<^verbatim>\<open>Map\<close>, kept in insertion order), the body data that the visualization holds per
  content id, and whether the music system exists (\<^verbatim>\<open>audioEnabled\<close> is not \<^verbatim>\<open>false\<close>).
  Meshes, voices and the log are left out, and the calls into the rendering and the audio
  library are taken to return.
\<close>

record Orrery =
  bodies :: "(string \<times> StoredBody) list"
  visualization :: "(string \<times> StoredBody) list"
  music :: bool

definition exportState :: "Orrery \<Rightarrow> JsonEntry list" where
  "exportState orrery = map exportEntry (bodies orrery)"

text \<open>\<^verbatim>\<open>Map.prototype.set\<close>: an existing key keeps its place, a new key goes to the end.\<close>

fun mapSet :: "'k \<Rightarrow> 'v \<Rightarrow> ('k \<times> 'v) list \<Rightarrow> ('k \<times> 'v) list" where
  "mapSet k v [] = [(k, v)]"
| "mapSet k v ((k', v') # m) = (if k' = k then (k, v) # m else (k', v') # mapSet k v m)"

text \<open>
  The body of the loop of \<^verbatim>\<open>importState\<close>: \<^verbatim>\<open>visualization.addBody\<close> builds the body data
  with the factory and stores it; the orrery builds and stores its own body only when the
  music system exists. Neither reads the coordinates or the luminosity of the entry.
\<close>

definition importBody :: "JsonEntry \<Rightarrow> Orrery \<Rightarrow> error + Orrery" where
  "importBody bodyData orrery =
     (case createCelestialBody_rt (j_cid bodyData) (j_soul bodyData) (j_harmonics bodyData) of
        Inl err \<Rightarrow> Inl err
      | Inr shown \<Rightarrow>
          let o1 = orrery\<lparr>visualization := mapSet (j_cid bodyData) shown (visualization orrery)\<rparr>
          in if music o1
             then (case createCelestialBody_rt (j_cid bodyData) (j_soul bodyData)
                          (j_harmonics bodyData) of
                     Inl err \<Rightarrow> Inl err
                   | Inr body \<Rightarrow> Inr (o1\<lparr>bodies := mapSet (j_cid bodyData) body (bodies o1)\<rparr>))
             else Inr o1)"

fun importState :: "JsonEntry list \<Rightarrow> Orrery \<Rightarrow> error + Orrery" where
  "importState [] orrery = Inr orrery"
| "importState (bodyData # rest) orrery =
     (case importBody bodyData orrery of
        Inl err \<Rightarrow> Inl err
      | Inr orrery' \<Rightarrow> importState rest orrery')"

text \<open>
  What \<^verbatim>\<open>addCode\<close> establishes for a stored pair when the eigenvalues are finite numbers:
  the body is the one the factory builds from the key, its soul and its harmonics.
\<close>

fun isFiniteNumber :: "jsvalue \<Rightarrow> bool" where
  "isFiniteNumber (Num (Fin a)) = True"
| "isFiniteNumber v = False"

definition factoryMade :: "(string \<times> StoredBody) \<Rightarrow> bool" where
  "factoryMade entry =
     (case entry of (key, body) \<Rightarrow>
        list_all isFiniteNumber (s_harmonics body) \<and>
        createCelestialBody_rt key (s_soul body) (s_harmonics body) = Inr body)"

section \<open>Notions of the specification\<close>

text \<open>
  The decoder as the specification words it: the remainder after the prefix is cut into
  pairs, a pair of two hexadecimal digits is the byte it denotes, and every other pair
  (and every position past the end of the input) is the byte 0.
\<close>

definition pairByte_spec :: "string \<Rightarrow> 8 word" where
  "pairByte_spec p =
     (if length p = 2 \<and> isHexDigit (p ! 0) \<and> isHexDigit (p ! 1)
      then word_of_nat (16 * digitValue (p ! 0) + digitValue (p ! 1))
      else 0)"

definition hashToBuffer_spec :: "string \<Rightarrow> 8 word list" where
  "hashToBuffer_spec hash =
     map (\<lambda>k. pairByte_spec (substr (removePrefix hash) (2 * k) 2)) [0 ..< 32]"

text \<open>
  The primary of the specification's third test vector: \<open>r = 0.4\<close> and \<open>\<theta> = 1.0\<close>, with the
  polar angle 0 and the remaining fields as the lattice derives them.
\<close>

definition vector3_primary :: CelestialBody where
  "vector3_primary =
     \<lparr>cid = ''primary'', soul = ''primary'',
      coordinates = sphericalToOrbital (Fin (4 / 10)) (Fin 1) (Fin 0),
      harmonics = [Fin 1], luminosity = Fin (1 / 2),
      color = orbitalColor (sphericalToOrbital (Fin (4 / 10)) (Fin 1) (Fin 0)),
      melody = orbitalHarmonics (sphericalToOrbital (Fin (4 / 10)) (Fin 1) (Fin 0)) [Fin 1]\<rparr>"

section \<open>Arithmetic of the decoded words\<close>

lemma Fin_nat_mod:
  assumes "0 < m"
  shows "Fin (real n) mod Fin (real m) = Fin (real (n mod m))"
proof -
  have fl: "\<lfloor>real n / real m\<rfloor> = int (n div m)"
    by (rule floor_divide_of_nat_eq)
  have nonneg: "0 \<le> real n / real m"
    by simp
  have "real n = real m * real (n div m) + real (n mod m)"
    by (metis of_nat_add of_nat_mult mult_div_mod_eq)
  then have eq: "real n - real m * real (n div m) = real (n mod m)"
    by linarith
  show ?thesis
    using assms fl nonneg eq by (simp add: trunc_def)
qed

lemma toNumber_mod:
  assumes "0 < m"
  shows "toNumber w mod Fin (real m) = Fin (real (unat w mod m))"
  unfolding toNumber_def using assms by (rule Fin_nat_mod)

lemma hashToOrbit_r:
  "c_r (hashToOrbit h) = Fin (real (unat (getUint32 (hashToBuffer h) 0) mod 1000) / 1000)"
  using toNumber_mod [of 1000 "getUint32 (hashToBuffer h) 0"]
  by (simp add: hashToOrbit_def Let_def)

lemma hashToOrbit_theta:
  "c_theta (hashToOrbit h) =
     Fin (real (unat (getUint32 (hashToBuffer h) 4) mod 10000) / 10000 * 2 * pi)"
  using toNumber_mod [of 10000 "getUint32 (hashToBuffer h) 4"]
  by (simp add: hashToOrbit_def Let_def Math_PI_def)

lemma hashToOrbit_phi:
  "c_phi (hashToOrbit h) =
     Fin (real (unat (getUint32 (hashToBuffer h) 8) mod 10000) / 10000 * 2 * pi)"
  using toNumber_mod [of 10000 "getUint32 (hashToBuffer h) 8"]
  by (simp add: hashToOrbit_def Let_def Math_PI_def)

lemma hashToOrbit_eccentricity:
  "c_eccentricity (hashToOrbit h) =
     Fin (real (unat (getUint32 (hashToBuffer h) 12) mod 100) / 100 * (5 / 10))"
  using toNumber_mod [of 100 "getUint32 (hashToBuffer h) 12"]
  by (simp add: hashToOrbit_def Let_def)

lemma hashToOrbit_period:
  "c_period (hashToOrbit h) = Math_sqrt (Math_pow (c_r (hashToOrbit h)) 3) * BASE_ORBITS"
  by (simp add: hashToOrbit_def Let_def)

lemma hashToOrbit_velocity:
  "c_velocity (hashToOrbit h) =
     (Fin 2 * Math_PI * c_r (hashToOrbit h)) / c_period (hashToOrbit h)"
  by (simp add: hashToOrbit_def Let_def)

lemma Fin_boundedI: "lo \<le> a \<Longrightarrow> a < hi \<Longrightarrow> \<exists>b. Fin a = Fin b \<and> lo \<le> b \<and> b < hi"
  by blast

subsection \<open>The hash of 64 zero characters\<close>

lemma hashToBuffer_zeros:
  "hashToBuffer ''0000000000000000000000000000000000000000000000000000000000000000''
     = replicate 32 0"
  by code_simp

lemma getUint32_zeros: "off + 3 < 32 \<Longrightarrow> getUint32 (replicate 32 0) off = 0"
  by (simp add: getUint32_def)

lemma hashToOrbit_zeros_r:
  "c_r (hashToOrbit ''0000000000000000000000000000000000000000000000000000000000000000'') = Fin 0"
  by (simp add: hashToOrbit_r hashToBuffer_zeros getUint32_zeros)

lemma hashToOrbit_zeros_theta:
  "c_theta (hashToOrbit ''0000000000000000000000000000000000000000000000000000000000000000'') = Fin 0"
  by (simp add: hashToOrbit_theta hashToBuffer_zeros getUint32_zeros)

lemma hashToOrbit_zeros_phi:
  "c_phi (hashToOrbit ''0000000000000000000000000000000000000000000000000000000000000000'') = Fin 0"
  by (simp add: hashToOrbit_phi hashToBuffer_zeros getUint32_zeros)

section \<open>Orbits at radius zero\<close>

text \<open>
  C1, as the code has it: for every hash whose first word gives \<open>r = 0\<close> the period is
  exactly 0, and the velocity is the quotient \<^verbatim>\<open>0 / 0\<close>, which is NaN: \<^verbatim>\<open>hashToOrbit\<close>
  divides by the period without a guard.
\<close>

theorem hashToOrbit_r_zero:
  assumes "c_r (hashToOrbit h) = Fin 0"
  shows "c_period (hashToOrbit h) = Fin 0 \<and> c_velocity (hashToOrbit h) = NaN"
proof -
  have p: "c_period (hashToOrbit h) = Fin 0"
    by (simp add: hashToOrbit_period assms BASE_ORBITS_def)
  have "c_velocity (hashToOrbit h) = NaN"
    by (simp add: hashToOrbit_velocity p assms Math_PI_def)
  with p show ?thesis by simp
qed

theorem hashToOrbit_r_zero_witness:
  "c_r (hashToOrbit ''0000000000000000000000000000000000000000000000000000000000000000'') = Fin 0 \<and>
   c_period (hashToOrbit ''0000000000000000000000000000000000000000000000000000000000000000'') = Fin 0 \<and>
   c_velocity (hashToOrbit ''0000000000000000000000000000000000000000000000000000000000000000'') = NaN"
  using hashToOrbit_r_zero [OF hashToOrbit_zeros_r] hashToOrbit_zeros_r by simp

text \<open>The claim as the specification states it fails at the hash of 64 zeros.\<close>

theorem velocity_zero_counterexample:
  "c_r (hashToOrbit ''0000000000000000000000000000000000000000000000000000000000000000'') = Fin 0 \<and>
   c_velocity (hashToOrbit ''0000000000000000000000000000000000000000000000000000000000000000'') \<noteq> Fin 0"
proof -
  have "c_velocity (hashToOrbit ''0000000000000000000000000000000000000000000000000000000000000000'') = NaN"
    by (simp add: hashToOrbit_velocity hashToOrbit_period hashToOrbit_zeros_r
        BASE_ORBITS_def Math_PI_def)
  then show ?thesis
    by (simp add: hashToOrbit_zeros_r)
qed

section \<open>Harmonics at radius zero\<close>

lemma times_PInf_not_finite: "\<not> is_finite (u * PInf)"
  by (cases u) (simp_all add: inf_of_def)

lemma harmonic_r_zero_not_finite:
  assumes "c_r coords = Fin 0"
  shows "\<not> is_finite (harmonic coords s e i)"
  by (simp add: harmonic_def Let_def assms times_PInf_not_finite)

lemma length_orbitalHarmonics: "length (orbitalHarmonics coords es) = length es"
  by (simp add: orbitalHarmonics_def Let_def)

lemma modifier_pos: "0 < 1 + sin (a::real) * cos (b::real) * (1 / 10)"
proof -
  have "\<bar>sin a * cos b\<bar> \<le> 1"
    unfolding abs_mult by (intro mult_le_one) simp_all
  then have "- 1 \<le> sin a * cos b"
    by linarith
  then show ?thesis
    by simp
qed

lemma harmonic_r_zero:
  assumes "c_r coords = Fin 0" "c_theta coords = Fin t" "c_phi coords = Fin p"
  shows "harmonic coords (Fin 1) (Fin e) i = (if e = 0 then NaN else inf_of (0 < e))"
proof -
  let ?m = "1 + sin (t + real i) * cos (p + real i) * (1 / 10)"
  have m: "0 < ?m" by (rule modifier_pos)
  have "harmonic coords (Fin 1) (Fin e) i = Fin (432 * e * 1 * ?m) * PInf"
    by (simp add: harmonic_def Let_def assms)
  also have "\<dots> = (if e = 0 then NaN else inf_of (0 < e))"
    using m by (simp add: zero_less_mult_iff)
  finally show ?thesis .
qed

text \<open>
  C2, as the code has it: at \<open>r = 0\<close> the factor \<^verbatim>\<open>Math.pow(r, -1.5)\<close> is Infinity and is
  not clamped, so the result has the length of the eigenvalue sequence and none of its
  elements is finite (each is Infinity, -Infinity or NaN).
\<close>

theorem orbitalHarmonics_r_zero:
  assumes "c_r coords = Fin 0"
  shows "length (orbitalHarmonics coords eigenvalues) = length eigenvalues \<and>
         (\<forall>f \<in> set (orbitalHarmonics coords eigenvalues). \<not> is_finite f)"
  using assms by (auto simp: orbitalHarmonics_def Let_def harmonic_r_zero_not_finite)

theorem orbitalHarmonics_r_zero_witness:
  "c_r (hashToOrbit ''0000000000000000000000000000000000000000000000000000000000000000'') = Fin 0 \<and>
   length (orbitalHarmonics (hashToOrbit ''0000000000000000000000000000000000000000000000000000000000000000'') [Fin 1, Fin 2]) = 2 \<and>
   \<not> is_finite (orbitalHarmonics (hashToOrbit ''0000000000000000000000000000000000000000000000000000000000000000'') [Fin 1, Fin 2] ! 0) \<and>
   \<not> is_finite (orbitalHarmonics (hashToOrbit ''0000000000000000000000000000000000000000000000000000000000000000'') [Fin 1, Fin 2] ! 1)"
proof -
  let ?fs = "orbitalHarmonics (hashToOrbit ''0000000000000000000000000000000000000000000000000000000000000000'') [Fin 1, Fin 2]"
  note t = orbitalHarmonics_r_zero [OF hashToOrbit_zeros_r, of "[Fin 1, Fin 2]"]
  from t have len: "length ?fs = 2"
    by simp
  from t have all: "\<forall>f \<in> set ?fs. \<not> is_finite f"
    by simp
  have "?fs ! 0 \<in> set ?fs" "?fs ! 1 \<in> set ?fs"
    using len by simp_all
  with all len hashToOrbit_zeros_r show ?thesis
    by blast
qed

text \<open>
  The vector of the specification: the four eigenvalues at the coordinates of the zero
  hash give four times Infinity.
\<close>

theorem harmonics_clamp_counterexample:
  "orbitalHarmonics (hashToOrbit ''0000000000000000000000000000000000000000000000000000000000000000'')
     [Fin 1, Fin (1 / 2), Fin (1 / 4), Fin (1 / 8)] = [PInf, PInf, PInf, PInf]"
  by (simp add: orbitalHarmonics_def Let_def hashToOrbit_zeros_r
      upt_rec [of 0] upt_rec [of 1] upt_rec [of 2] upt_rec [of 3]
      harmonic_r_zero [OF hashToOrbit_zeros_r hashToOrbit_zeros_theta hashToOrbit_zeros_phi]
      inf_of_def)

section \<open>The range of the coordinates\<close>

text \<open>
  C6: for every hash string the radius lies in \<open>[0, 1)\<close>, both angles in \<open>[0, 2\<pi>)\<close> and
  the eccentricity in \<open>[0, 0.5)\<close>; all four are finite numbers.
\<close>

theorem hashToOrbit_ranges:
  "(\<exists>a. c_r (hashToOrbit h) = Fin a \<and> 0 \<le> a \<and> a < 1) \<and>
   (\<exists>a. c_theta (hashToOrbit h) = Fin a \<and> 0 \<le> a \<and> a < 2 * pi) \<and>
   (\<exists>a. c_phi (hashToOrbit h) = Fin a \<and> 0 \<le> a \<and> a < 2 * pi) \<and>
   (\<exists>a. c_eccentricity (hashToOrbit h) = Fin a \<and> 0 \<le> a \<and> a < 5 / 10)"
proof -
  have scale: "0 \<le> q * 2 * pi \<and> q * 2 * pi < 2 * pi" if "0 \<le> q" "q < 1" for q :: real
  proof
    show "0 \<le> q * 2 * pi"
      using that by simp
    have "q * (2 * pi) < 1 * (2 * pi)"
      using that by (intro mult_strict_right_mono) simp_all
    then show "q * 2 * pi < 2 * pi"
      by simp
  qed
  have half: "0 \<le> q * (5 / 10) \<and> q * (5 / 10) < 5 / 10" if "0 \<le> q" "q < 1" for q :: real
    using that by simp
  have r: "\<exists>a. c_r (hashToOrbit h) = Fin a \<and> 0 \<le> a \<and> a < 1"
    unfolding hashToOrbit_r by (rule Fin_boundedI) simp_all
  have th: "\<exists>a. c_theta (hashToOrbit h) = Fin a \<and> 0 \<le> a \<and> a < 2 * pi"
    unfolding hashToOrbit_theta
    using scale [of "real (unat (getUint32 (hashToBuffer h) 4) mod 10000) / 10000"]
    by (intro Fin_boundedI) simp_all
  have ph: "\<exists>a. c_phi (hashToOrbit h) = Fin a \<and> 0 \<le> a \<and> a < 2 * pi"
    unfolding hashToOrbit_phi
    using scale [of "real (unat (getUint32 (hashToBuffer h) 8) mod 10000) / 10000"]
    by (intro Fin_boundedI) simp_all
  have ec: "\<exists>a. c_eccentricity (hashToOrbit h) = Fin a \<and> 0 \<le> a \<and> a < 5 / 10"
    unfolding hashToOrbit_eccentricity
    using half [of "real (unat (getUint32 (hashToBuffer h) 12) mod 100) / 100"]
    by (intro Fin_boundedI) simp_all
  show ?thesis
    using r th ph ec by blast
qed

section \<open>The factory\<close>

lemma createCelestialBody_fields:
  assumes "createCelestialBody k h es = Inr b"
  shows "cid b = k" "soul b = h" "harmonics b = es"
    "coordinates b = hashToOrbit h"
    "melody b = orbitalHarmonics (hashToOrbit h) es"
    "luminosity b = Fin 1 / (Fin 1 + foldl (+) (Fin 0) es / Fin (real (length es)))"
  using assms by (auto simp: createCelestialBody_def Let_def)

lemma createCelestialBody_projr:
  "createCelestialBody k h es = Inr (projr (createCelestialBody k h es))"
  by (simp add: createCelestialBody_def Let_def)

lemma foldl_plus_Fin: "foldl (+) (Fin a) (map Fin xs) = Fin (a + sum_list xs)"
  by (induction xs arbitrary: a) (simp_all add: add.assoc)

text \<open>
  C3, as the code has it: the factory rejects nothing. For every content id, hash and
  eigenvalue sequence it returns a body; for the empty sequence the mean is \<^verbatim>\<open>0 / 0\<close>, so
  the body has luminosity NaN and an empty melody.
\<close>

theorem createCelestialBody_total:
  "(\<exists>b. createCelestialBody k h es = Inr b) \<and>
   (\<exists>b. createCelestialBody k h [] = Inr b \<and> luminosity b = NaN \<and> melody b = [])"
  by (simp add: createCelestialBody_def Let_def orbitalHarmonics_def)

theorem empty_eigenvalues_counterexample:
  "\<not> isl (createCelestialBody ''c'' ''00'' []) \<and>
   createCelestialBody ''c'' ''00'' [] \<noteq> Inl InvalidInput \<and>
   luminosity (projr (createCelestialBody ''c'' ''00'' [])) = NaN"
  by (simp add: createCelestialBody_def Let_def)

text \<open>
  C9, as the code has it: every body of the factory stores the eigenvalues as its
  harmonics and has a melody of their length; its luminosity is \<open>1 / (1 + mean)\<close>, the
  mean being the sum that \<^verbatim>\<open>reduce\<close> accumulates from the left, divided by the length; and
  for a non-empty sequence of finite eigenvalues none of which is negative, with a sum of
  at most \<open>2\<^sup>1\<^sup>0\<^sup>2\<^sup>3\<close> (so that the sum of the doubles stays finite), the luminosity lies
  in \<open>(0, 1]\<close>. Rounding does not disturb the range: a sum of numbers that are not negative
  is not negative however it is rounded.
\<close>

theorem createCelestialBody_invariant:
  assumes "createCelestialBody k h es = Inr b"
  shows "harmonics b = es \<and> length (melody b) = length (harmonics b) \<and>
         luminosity b = Fin 1 / (Fin 1 + foldl (+) (Fin 0) es / Fin (real (length es))) \<and>
         (\<forall>xs. es = map Fin xs \<and> xs \<noteq> [] \<and> (\<forall>x \<in> set xs. 0 \<le> x) \<and> sum_list xs \<le> 2 ^ 1023 \<longrightarrow>
            Fin 0 < luminosity b \<and> luminosity b \<le> Fin 1)"
proof (intro conjI allI impI)
  show "harmonics b = es"
    using assms by (rule createCelestialBody_fields(3))
  show "length (melody b) = length (harmonics b)"
    using createCelestialBody_fields(3,5) [OF assms] by (simp add: length_orbitalHarmonics)
  show lum: "luminosity b = Fin 1 / (Fin 1 + foldl (+) (Fin 0) es / Fin (real (length es)))"
    using assms by (rule createCelestialBody_fields(6))
  fix xs
  assume xs: "es = map Fin xs \<and> xs \<noteq> [] \<and> (\<forall>x \<in> set xs. 0 \<le> x) \<and> sum_list xs \<le> 2 ^ 1023"
  then have len: "0 < real (length xs)"
    by simp
  have "0 \<le> sum_list xs"
    using xs by (intro sum_list_nonneg) simp
  then have m: "0 \<le> sum_list xs / real (length xs)"
    using len by simp
  define q where "q = sum_list xs / real (length xs)"
  have eq: "luminosity b = Fin (1 / (1 + q))"
    using lum xs len m by (simp add: foldl_plus_Fin q_def)
  have "0 < 1 / (1 + q)" "1 / (1 + q) \<le> 1"
    using m by (simp_all add: q_def)
  then show "Fin 0 < luminosity b" "luminosity b \<le> Fin 1"
    by (auto simp: eq less_eq_number_def)
qed

theorem createCelestialBody_invariant_witness:
  "harmonics (projr (createCelestialBody ''c'' ''00'' (map Fin [1]))) = [Fin 1] \<and>
   length (melody (projr (createCelestialBody ''c'' ''00'' (map Fin [1])))) = 1 \<and>
   luminosity (projr (createCelestialBody ''c'' ''00'' (map Fin [1]))) = Fin (1 / 2) \<and>
   Fin 0 < luminosity (projr (createCelestialBody ''c'' ''00'' (map Fin [1]))) \<and>
   luminosity (projr (createCelestialBody ''c'' ''00'' (map Fin [1]))) \<le> Fin 1"
proof -
  let ?b = "projr (createCelestialBody ''c'' ''00'' (map Fin [1]))"
  note T = createCelestialBody_invariant
    [OF createCelestialBody_projr, of "''c''" "''00''" "map Fin [1]"]
  have h: "harmonics ?b = [Fin 1]" and l: "length (melody ?b) = 1"
    using T by simp_all
  have "luminosity ?b
          = Fin 1 / (Fin 1 + foldl (+) (Fin 0) (map Fin [1]) / Fin (real (length (map Fin [1::real]))))"
    using T by blast
  then have lum: "luminosity ?b = Fin (1 / 2)"
    by simp
  have "map Fin [1] = map Fin [1::real] \<and> [1::real] \<noteq> [] \<and> (\<forall>x \<in> set [1::real]. 0 \<le> x) \<and>
        sum_list [1::real] \<le> 2 ^ 1023"
    by (simp add: one_le_power)
  with T have "Fin 0 < luminosity ?b \<and> luminosity ?b \<le> Fin 1"
    by blast
  then have pos: "Fin 0 < luminosity ?b" and le: "luminosity ?b \<le> Fin 1"
    by simp_all
  show ?thesis
    by (intro conjI h l lum pos le)
qed

text \<open>The range fails for a negative eigenvalue: the mean \<open>-2\<close> gives luminosity \<open>-1\<close>.\<close>

theorem luminosity_range_counterexample:
  "luminosity (projr (createCelestialBody ''c'' ''00'' [Fin (- 2)])) = Fin (- 1) \<and>
   \<not> Fin 0 < luminosity (projr (createCelestialBody ''c'' ''00'' [Fin (- 2)]))"
  by (simp add: createCelestialBody_def Let_def)

section \<open>Export and import of a body\<close>

lemma map_of_mapSet: "map_of (mapSet k v m) k = Some v"
  by (induction m) auto

lemma mapSet_fresh: "k \<notin> fst ` set m \<Longrightarrow> mapSet k v m = m @ [(k, v)]"
  by (induction m) auto

lemma foldl_ToNumber_Num: "foldl (\<lambda>a b. a + ToNumber b) u (map Num es) = foldl (+) u es"
  by (induction es arbitrary: u) simp_all

lemma createCelestialBody_rt_typed:
  assumes "createCelestialBody k h es = Inr b"
  shows "createCelestialBody_rt k h (map Num es) = Inr (asStored b)"
  using assms
  by (auto simp: createCelestialBody_def createCelestialBody_rt_def asStored_def Let_def
      foldl_ToNumber_Num comp_def)

lemma viaJSON_finite: "map viaJSON (map Num (map Fin xs)) = map Num (map Fin xs)"
  by (induction xs) simp_all

lemma viaJSON_isFiniteNumber: "list_all isFiniteNumber vs \<Longrightarrow> map viaJSON vs = vs"
proof (induction vs)
  case Nil
  then show ?case by simp
next
  case (Cons v vs)
  then have "isFiniteNumber v"
    by simp
  then have "viaJSON v = v"
    by (cases v rule: isFiniteNumber.cases) simp_all
  with Cons show ?case
    by simp
qed

lemma exportEntry_fields:
  "j_cid (exportEntry (k, body)) = k" "j_soul (exportEntry (k, body)) = s_soul body"
  "j_harmonics (exportEntry (k, body)) = map viaJSON (s_harmonics body)"
  by (simp_all add: exportEntry_def)

lemma importBody_made:
  assumes "createCelestialBody_rt (j_cid e) (j_soul e) (j_harmonics e) = Inr body"
  shows "importBody e orrery =
           Inr (if music orrery
                then orrery\<lparr>visualization := mapSet (j_cid e) body (visualization orrery),
                            bodies := mapSet (j_cid e) body (bodies orrery)\<rparr>
                else orrery\<lparr>visualization := mapSet (j_cid e) body (visualization orrery)\<rparr>)"
  by (simp add: importBody_def assms Let_def)

lemma importBody_reads:
  assumes "j_cid e = j_cid e'" "j_soul e = j_soul e'" "j_harmonics e = j_harmonics e'"
  shows "importBody e orrery = importBody e' orrery"
  unfolding importBody_def assms by (rule refl)

text \<open>
  C5, as the code has it: for a body that the factory built from \<open>(k, h, es)\<close> with finite
  eigenvalues, the export of an orrery that holds the body under \<open>k\<close>, imported into any
  orrery, succeeds; the visualization then holds under \<open>k\<close> a body equal to the original in
  every field, and so does the orrery's own map when the music system exists. The import
  runs the factory on the content id, the soul and the harmonics of the entry: it gives
  the same result whatever coordinates and luminosity the entry carries.
\<close>

theorem export_import_roundtrip:
  assumes "createCelestialBody k h (map Fin xs) = Inr b"
  shows "(\<exists>orrery'.
            importState (exportState \<lparr>bodies = [(k, asStored b)], visualization = vis, music = m\<rparr>)
              target = Inr orrery' \<and>
            map_of (visualization orrery') k = Some (asStored b) \<and>
            (music target \<longrightarrow> map_of (bodies orrery') k = Some (asStored b))) \<and>
         importBody ((exportEntry (k, asStored b))\<lparr>j_coordinates := cs, j_luminosity := l\<rparr>) target
           = importBody (exportEntry (k, asStored b)) target"
proof
  have fields: "soul b = h" "harmonics b = map Fin xs"
    using createCelestialBody_fields(2,3) [OF assms] .
  have made: "createCelestialBody_rt k h (map Num (map Fin xs)) = Inr (asStored b)"
    using assms by (rule createCelestialBody_rt_typed)
  let ?e = "exportEntry (k, asStored b)"
  have e: "j_cid ?e = k" "j_soul ?e = h" "j_harmonics ?e = map Num (map Fin xs)"
    using fields by (simp_all add: exportEntry_fields asStored_def viaJSON_finite)
  have made': "createCelestialBody_rt (j_cid ?e) (j_soul ?e) (j_harmonics ?e) = Inr (asStored b)"
    using made by (simp only: e)
  show "\<exists>orrery'.
            importState (exportState \<lparr>bodies = [(k, asStored b)], visualization = vis, music = m\<rparr>)
              target = Inr orrery' \<and>
            map_of (visualization orrery') k = Some (asStored b) \<and>
            (music target \<longrightarrow> map_of (bodies orrery') k = Some (asStored b))"
    by (simp add: exportState_def importBody_made [OF made'] e map_of_mapSet)
  show "importBody (?e\<lparr>j_coordinates := cs, j_luminosity := l\<rparr>) target = importBody ?e target"
    by (rule importBody_reads) simp_all
qed

theorem export_import_roundtrip_witness:
  "map_of (bodies (projr (importState
       (exportState \<lparr>bodies = [(''c'', asStored (projr (createCelestialBody ''c'' ''f401'' (map Fin [1]))))],
                     visualization = [], music = True\<rparr>)
       \<lparr>bodies = [], visualization = [], music = True\<rparr>))) ''c''
     = Some (asStored (projr (createCelestialBody ''c'' ''f401'' (map Fin [1])))) \<and>
   map_of (visualization (projr (importState
       (exportState \<lparr>bodies = [(''c'', asStored (projr (createCelestialBody ''c'' ''f401'' (map Fin [1]))))],
                     visualization = [], music = True\<rparr>)
       \<lparr>bodies = [], visualization = [], music = True\<rparr>))) ''c''
     = Some (asStored (projr (createCelestialBody ''c'' ''f401'' (map Fin [1]))))"
proof -
  let ?b = "projr (createCelestialBody ''c'' ''f401'' (map Fin [1]))"
  let ?source = "\<lparr>bodies = [(''c'', asStored ?b)], visualization = [], music = True\<rparr>"
  let ?target = "\<lparr>bodies = [], visualization = [], music = True\<rparr>"
  note T = export_import_roundtrip
    [OF createCelestialBody_projr, of "''c''" "''f401''" "[1]" "[]" True ?target]
  obtain orrery' where o: "importState (exportState ?source) ?target = Inr orrery'"
    and v: "map_of (visualization orrery') ''c'' = Some (asStored ?b)"
    and b: "music ?target \<longrightarrow> map_of (bodies orrery') ''c'' = Some (asStored ?b)"
    using T by blast
  have b': "map_of (bodies orrery') ''c'' = Some (asStored ?b)"
    using b by simp
  show ?thesis
    unfolding o using v b' by simp
qed

text \<open>
  The claim as the specification states it fails for an eigenvalue that is not finite:
  the body built from \<open>[Infinity]\<close> has luminosity 0; its entry carries \<^verbatim>\<open>[null]\<close>, and the
  body that the import builds from it has luminosity 1. (The exporting orrery has no music
  system, the importing one has.)
\<close>

theorem nonfinite_eigenvalue_counterexample:
  "luminosity (projr (createCelestialBody ''c'' ''f401'' [PInf])) = Fin 0 \<and>
   map_option s_luminosity (map_of (bodies (projr (importState
       (exportState \<lparr>bodies = [(''c'', asStored (projr (createCelestialBody ''c'' ''f401'' [PInf])))],
                     visualization = [], music = False\<rparr>)
       \<lparr>bodies = [], visualization = [], music = True\<rparr>))) ''c'') = Some (Fin 1) \<and>
   map_of (bodies (projr (importState
       (exportState \<lparr>bodies = [(''c'', asStored (projr (createCelestialBody ''c'' ''f401'' [PInf])))],
                     visualization = [], music = False\<rparr>)
       \<lparr>bodies = [], visualization = [], music = True\<rparr>))) ''c''
     \<noteq> Some (asStored (projr (createCelestialBody ''c'' ''f401'' [PInf])))"
proof -
  let ?b = "projr (createCelestialBody ''c'' ''f401'' [PInf])"
  let ?source = "\<lparr>bodies = [(''c'', asStored ?b)], visualization = [], music = False\<rparr>"
  let ?target = "\<lparr>bodies = [], visualization = [], music = True\<rparr>"
  have lum: "luminosity ?b = Fin 0"
    by (simp add: createCelestialBody_def Let_def inf_of_def)
  have e: "exportState ?source
             = [\<lparr>j_cid = ''c'', j_soul = ''f401'',
                 j_coordinates = jsonCoordinates (hashToOrbit ''f401''),
                 j_harmonics = [Null], j_luminosity = Num (Fin 0)\<rparr>]"
    by (simp add: exportState_def exportEntry_def asStored_def createCelestialBody_def Let_def
        inf_of_def)
  obtain body where made: "createCelestialBody_rt ''c'' ''f401'' [Null] = Inr body"
    and bl: "s_luminosity body = Fin 1"
    by (simp add: createCelestialBody_rt_def Let_def)
  have imp: "importState (exportState ?source) ?target
               = Inr \<lparr>bodies = [(''c'', body)], visualization = [(''c'', body)], music = True\<rparr>"
    unfolding e using made by (simp add: importBody_def Let_def)
  have "s_luminosity (asStored ?b) = Fin 0"
    using lum by (simp add: asStored_def)
  then have ne: "body \<noteq> asStored ?b"
    using bl by auto
  show ?thesis
    unfolding imp using lum bl ne by simp
qed

text \<open>
  The whole state: with the music system, importing the export of an orrery into an empty
  one restores the map of bodies, entry by entry and in order; without it the map stays
  as it was and only the visualization receives the bodies.
\<close>

lemma importState_appends:
  assumes "list_all factoryMade bs" "distinct (map fst (bodies orrery @ bs))" "music orrery"
  shows "\<exists>orrery'. importState (map exportEntry bs) orrery = Inr orrery' \<and>
           bodies orrery' = bodies orrery @ bs \<and> music orrery'"
  using assms
proof (induction bs arbitrary: orrery)
  case Nil
  then show ?case by simp
next
  case (Cons kb bs)
  obtain k b where kb: "kb = (k, b)"
    by (cases kb)
  have fin: "list_all isFiniteNumber (s_harmonics b)"
    and made: "createCelestialBody_rt k (s_soul b) (s_harmonics b) = Inr b"
    using Cons.prems(1) by (simp_all add: kb factoryMade_def)
  have made': "createCelestialBody_rt (j_cid (exportEntry (k, b))) (j_soul (exportEntry (k, b)))
                 (j_harmonics (exportEntry (k, b))) = Inr b"
    using made by (simp add: exportEntry_fields viaJSON_isFiniteNumber [OF fin])
  have fresh: "k \<notin> fst ` set (bodies orrery)"
    using Cons.prems(2) by (auto simp: kb)
  let ?o2 = "orrery\<lparr>visualization := mapSet k b (visualization orrery),
                    bodies := bodies orrery @ [(k, b)]\<rparr>"
  have step: "importBody (exportEntry (k, b)) orrery = Inr ?o2"
    using Cons.prems(3) fresh
    by (simp add: importBody_made [OF made'] exportEntry_fields mapSet_fresh)
  have "\<exists>orrery'. importState (map exportEntry bs) ?o2 = Inr orrery' \<and>
           bodies orrery' = bodies ?o2 @ bs \<and> music orrery'"
    using Cons.prems by (intro Cons.IH) (simp_all add: kb)
  then show ?case
    by (simp add: step kb)
qed

lemma importState_roundtrip:
  assumes "list_all factoryMade (bodies orrery)" "distinct (map fst (bodies orrery))"
    "music target" "bodies target = []"
  shows "\<exists>orrery'. importState (exportState orrery) target = Inr orrery' \<and>
           bodies orrery' = bodies orrery"
  using importState_appends [of "bodies orrery" target] assms
  by (auto simp: exportState_def)

lemma importBody_without_music:
  assumes "\<not> music orrery"
  shows "\<exists>orrery'. importBody bodyData orrery = Inr orrery' \<and> bodies orrery' = bodies orrery"
  using assms by (simp add: importBody_def createCelestialBody_rt_def Let_def)

section \<open>The hash decoder\<close>

text \<open>The loop writes byte \<open>k\<close> from the pair at position \<open>2 * k\<close> and nothing else.\<close>

lemma fillBytes_length: "length (fillBytes s i bytes) = length bytes"
proof (induction s i bytes rule: fillBytes.induct)
  case (1 s i bytes)
  then show ?case
    by (subst fillBytes.simps) simp
qed

lemma fillBytes_nth:
  assumes "k < length bytes"
  shows "fillBytes s (2 * j) bytes ! k =
           (if j \<le> k \<and> 2 * k < min (length s) 64
            then word_of_int (parseIntOr0 (substr s (2 * k) 2))
            else bytes ! k)"
  using assms
proof (induction s "2 * j" bytes arbitrary: j rule: fillBytes.induct)
  case (1 s bytes)
  show ?case
  proof (cases "2 * j < min (length s) 64")
    case True
    let ?bytes = "bytes[(2 * j) div 2 := word_of_int (parseIntOr0 (substr s (2 * j) 2))]"
    have step: "fillBytes s (2 * j) bytes = fillBytes s (2 * Suc j) ?bytes"
      using True by (subst fillBytes.simps) simp
    have k: "k < length ?bytes"
      using "1.prems" by simp
    have "fillBytes s (2 * Suc j) ?bytes ! k =
            (if Suc j \<le> k \<and> 2 * k < min (length s) 64
             then word_of_int (parseIntOr0 (substr s (2 * k) 2))
             else ?bytes ! k)"
      using "1.hyps" [OF True _ k, of "Suc j"] by simp
    then show ?thesis
      using True "1.prems" unfolding step by (auto simp: nth_list_update not_less_eq_eq le_antisym)
  next
    case False
    then have "fillBytes s (2 * j) bytes = bytes"
      by (subst fillBytes.simps) (simp only: if_False)
    with False show ?thesis
      by auto
  qed
qed

lemma parseIntOr0_Nil: "parseIntOr0 [] = 0"
  by (simp add: parseIntOr0_def parseInt16_def)

lemma substr_beyond: "length s \<le> i \<Longrightarrow> substr s i n = []"
  by (simp add: substr_def)

lemma hashToBuffer_nth:
  assumes "k < 32"
  shows "hashToBuffer h ! k = word_of_int (parseIntOr0 (substr (removePrefix h) (2 * k) 2))"
proof -
  let ?s = "removePrefix h"
  have "hashToBuffer h ! k =
          (if 2 * k < min (length ?s) 64
           then word_of_int (parseIntOr0 (substr ?s (2 * k) 2)) else 0)"
    using assms fillBytes_nth [of k "replicate 32 0" ?s 0]
    by (simp add: hashToBuffer_def)
  moreover have "substr ?s (2 * k) 2 = []" if "\<not> 2 * k < min (length ?s) 64"
    using that assms by (intro substr_beyond) simp
  ultimately show ?thesis
    by (simp add: parseIntOr0_Nil)
qed

lemma length_hashToBuffer: "length (hashToBuffer h) = 32"
  by (simp add: hashToBuffer_def fillBytes_length)

lemma hexDigit_not_special:
  assumes "isHexDigit c"
  shows "\<not> isWhiteSpace c" "c \<noteq> CHR ''+''" "c \<noteq> CHR ''-''" "c \<noteq> CHR ''x''" "c \<noteq> CHR ''X''"
  using assms by (auto simp: isHexDigit_def isWhiteSpace_def Let_def)

lemma parseIntOr0_hex_pair:
  assumes "isHexDigit a" "isHexDigit b"
  shows "parseIntOr0 [a, b] = int (16 * digitValue a + digitValue b)"
  using assms hexDigit_not_special [OF assms(1)] hexDigit_not_special [OF assms(2)]
  by (simp add: parseIntOr0_def parseInt16_def Let_def)

lemma parseIntOr0_no_digit:
  assumes "\<not> isHexDigit a" "\<not> isWhiteSpace a" "a \<noteq> CHR ''+''" "a \<noteq> CHR ''-''"
  shows "parseIntOr0 (a # rest) = 0"
proof -
  have "a \<noteq> CHR ''0''"
    using assms(1) by (auto simp: isHexDigit_def)
  then show ?thesis
    using assms by (cases rest) (simp_all add: parseIntOr0_def parseInt16_def Let_def)
qed

lemma parseIntOr0_digit_then_other:
  assumes "isHexDigit a" "\<not> isHexDigit b"
  shows "parseIntOr0 [a, b] = int (digitValue a)"
proof (cases "a = CHR ''0'' \<and> (b = CHR ''x'' \<or> b = CHR ''X'')")
  case True
  then show ?thesis
    by (auto simp: parseIntOr0_def parseInt16_def Let_def isWhiteSpace_def digitValue_def)
next
  case False
  then show ?thesis
    using assms hexDigit_not_special [OF assms(1)]
    by (auto simp: parseIntOr0_def parseInt16_def Let_def)
qed

lemma pairByte_spec_hex:
  assumes "length p = 2" "list_all isHexDigit p"
  shows "word_of_int (parseIntOr0 p) = pairByte_spec p"
proof -
  obtain a b where p: "p = [a, b]"
    using assms(1) by (metis (no_types) One_nat_def Suc_1 length_0_conv length_Suc_conv)
  then show ?thesis
    using assms(2) by (simp add: pairByte_spec_def parseIntOr0_hex_pair)
qed

lemma hashToBuffer_truncates:
  assumes "take 64 (removePrefix h') = take 64 (removePrefix h)"
  shows "hashToBuffer h' = hashToBuffer h"
proof (rule nth_equalityI)
  show "length (hashToBuffer h') = length (hashToBuffer h)"
    by (simp add: length_hashToBuffer)
next
  fix k assume "k < length (hashToBuffer h')"
  then have k: "k < 32"
    by (simp add: length_hashToBuffer)
  have sub: "substr s (2 * k) 2 = substr (take 64 s) (2 * k) 2" for s :: string
    using k unfolding substr_def
    by (simp add: drop_take min_def)
  show "hashToBuffer h' ! k = hashToBuffer h ! k"
    using assms by (simp add: hashToBuffer_nth [OF k] sub [of "removePrefix h"] sub [of "removePrefix h'"])
qed

lemma getUint32_little_endian:
  "unat (getUint32 buf off) =
     unat (buf ! off) + 2 ^ 8 * unat (buf ! (off + 1)) + 2 ^ 16 * unat (buf ! (off + 2))
       + 2 ^ 24 * unat (buf ! (off + 3))"
proof -
  have b: "unat w < 256" for w :: "8 word"
    using unsigned_less [of w, where ?'a = nat] by simp
  have "unat (buf ! off) + 2 ^ 8 * unat (buf ! (off + 1)) + 2 ^ 16 * unat (buf ! (off + 2))
       + 2 ^ 24 * unat (buf ! (off + 3)) < 2 ^ 32"
    using b [of "buf ! off"] b [of "buf ! (off + 1)"] b [of "buf ! (off + 2)"] b [of "buf ! (off + 3)"]
    by simp
  then show ?thesis
    unfolding getUint32_def by (intro of_nat_inverse [OF refl]) simp
qed

text \<open>
  C4, as the code has it: the decoder is total and returns 32 bytes for every string; byte
  \<open>k\<close> is \<^verbatim>\<open>parseInt\<close> of the pair at position \<open>2 * k\<close> of the input without its prefix,
  reduced modulo 256, or 0 when \<^verbatim>\<open>parseInt\<close> reads no digit. A pair of two hexadecimal
  digits is the byte the specification names; a pair that starts with a character that is
  neither a digit, a sign nor white space is 0; a position past the end of the input is 0;
  nothing after the first 64 characters is read; and a word is four bytes, least
  significant first.
\<close>

theorem hashToBuffer_decodes:
  "length (hashToBuffer h) = 32 \<and>
   (\<forall>k<32. hashToBuffer h ! k
        = word_of_int (parseIntOr0 (substr (removePrefix h) (2 * k) 2))) \<and>
   (\<forall>k<32. length (substr (removePrefix h) (2 * k) 2) = 2 \<and>
        list_all isHexDigit (substr (removePrefix h) (2 * k) 2) \<longrightarrow>
        hashToBuffer h ! k = pairByte_spec (substr (removePrefix h) (2 * k) 2)) \<and>
   (\<forall>k<32. \<forall>a rest. substr (removePrefix h) (2 * k) 2 = a # rest \<and> \<not> isHexDigit a \<and>
        \<not> isWhiteSpace a \<and> a \<noteq> CHR ''+'' \<and> a \<noteq> CHR ''-'' \<longrightarrow>
        hashToBuffer h ! k = 0) \<and>
   (\<forall>k<32. length (removePrefix h) \<le> 2 * k \<longrightarrow> hashToBuffer h ! k = 0) \<and>
   (\<forall>h'. take 64 (removePrefix h') = take 64 (removePrefix h) \<longrightarrow>
        hashToBuffer h' = hashToBuffer h) \<and>
   (\<forall>off. unat (getUint32 (hashToBuffer h) off)
        = unat (hashToBuffer h ! off) + 2 ^ 8 * unat (hashToBuffer h ! (off + 1))
          + 2 ^ 16 * unat (hashToBuffer h ! (off + 2))
          + 2 ^ 24 * unat (hashToBuffer h ! (off + 3)))"
proof (intro conjI allI impI)
  show "length (hashToBuffer h) = 32"
    by (rule length_hashToBuffer)
next
  fix k :: nat assume "k < 32"
  then show "hashToBuffer h ! k = word_of_int (parseIntOr0 (substr (removePrefix h) (2 * k) 2))"
    by (rule hashToBuffer_nth)
next
  fix k :: nat
  assume "k < 32"
    and "length (substr (removePrefix h) (2 * k) 2) = 2 \<and>
         list_all isHexDigit (substr (removePrefix h) (2 * k) 2)"
  then show "hashToBuffer h ! k = pairByte_spec (substr (removePrefix h) (2 * k) 2)"
    by (simp add: hashToBuffer_nth pairByte_spec_hex)
next
  fix k :: nat and a rest
  assume "k < 32"
    and "substr (removePrefix h) (2 * k) 2 = a # rest \<and> \<not> isHexDigit a \<and>
         \<not> isWhiteSpace a \<and> a \<noteq> CHR ''+'' \<and> a \<noteq> CHR ''-''"
  then show "hashToBuffer h ! k = 0"
    by (simp add: hashToBuffer_nth parseIntOr0_no_digit)
next
  fix k :: nat
  assume "k < 32" and "length (removePrefix h) \<le> 2 * k"
  then show "hashToBuffer h ! k = 0"
    by (simp add: hashToBuffer_nth substr_beyond parseIntOr0_Nil)
next
  fix h' assume "take 64 (removePrefix h') = take 64 (removePrefix h)"
  then show "hashToBuffer h' = hashToBuffer h"
    by (rule hashToBuffer_truncates)
next
  fix off
  show "unat (getUint32 (hashToBuffer h) off)
        = unat (hashToBuffer h ! off) + 2 ^ 8 * unat (hashToBuffer h ! (off + 1))
          + 2 ^ 16 * unat (hashToBuffer h ! (off + 2))
          + 2 ^ 24 * unat (hashToBuffer h ! (off + 3))"
    by (rule getUint32_little_endian)
qed

lemma pair_values:
  "parseIntOr0 ''1g'' = 1" "parseIntOr0 ''-1'' = - 1" "pairByte_spec ''fF'' = 255"
  by code_simp+

theorem hashToBuffer_decodes_witness:
  "length (hashToBuffer ''Qm1g-1fFzz'') = 32 \<and>
   hashToBuffer ''Qm1g-1fFzz'' ! 0 = 1 \<and>
   hashToBuffer ''Qm1g-1fFzz'' ! 1 = 255 \<and>
   hashToBuffer ''Qm1g-1fFzz'' ! 2 = 255 \<and>
   hashToBuffer ''Qm1g-1fFzz'' ! 3 = 0 \<and>
   hashToBuffer ''Qm1g-1fFzz'' ! 4 = 0 \<and>
   hashToBuffer ''phash:1g-1fFzz'' = hashToBuffer ''Qm1g-1fFzz'' \<and>
   unat (getUint32 (hashToBuffer ''Qm1g-1fFzz'') 0) = 1 + 2 ^ 8 * 255 + 2 ^ 16 * 255"
proof -
  let ?h = "''Qm1g-1fFzz''"
  note T = hashToBuffer_decodes [of ?h]
  have clean: "removePrefix ?h = ''1g-1fFzz''" "removePrefix ''phash:1g-1fFzz'' = ''1g-1fFzz''"
    by (simp_all add: removePrefix_def)
  have len: "length (hashToBuffer ?h) = 32"
    using T by blast
  have nth: "hashToBuffer ?h ! k = word_of_int (parseIntOr0 (substr ''1g-1fFzz'' (2 * k) 2))"
    if "k < 32" for k
    using T that unfolding clean by blast
  have b0: "hashToBuffer ?h ! 0 = 1"
    using nth [of 0] by (simp add: substr_def pair_values)
  have b1: "hashToBuffer ?h ! 1 = 255"
    using nth [of 1] by (simp add: substr_def pair_values)
  have T3: "hashToBuffer ?h ! k = pairByte_spec (substr (removePrefix ?h) (2 * k) 2)"
    if "k < 32" "length (substr (removePrefix ?h) (2 * k) 2) = 2"
      "list_all isHexDigit (substr (removePrefix ?h) (2 * k) 2)" for k
    using T that by blast
  have T4: "hashToBuffer ?h ! k = 0"
    if "k < 32" "substr (removePrefix ?h) (2 * k) 2 = a # rest" "\<not> isHexDigit a"
      "\<not> isWhiteSpace a" "a \<noteq> CHR ''+''" "a \<noteq> CHR ''-''" for k a rest
    using T that by blast
  have T5: "hashToBuffer ?h ! k = 0" if "k < 32" "length (removePrefix ?h) \<le> 2 * k" for k
    using T that by blast
  have p2: "substr (removePrefix ?h) (2 * 2) 2 = ''fF''"
    by (simp add: clean substr_def)
  have "hashToBuffer ?h ! 2 = pairByte_spec ''fF''"
    using T3 [of 2] unfolding p2 by (simp add: isHexDigit_def)
  then have b2: "hashToBuffer ?h ! 2 = 255"
    by (simp add: pair_values)
  have p3: "substr (removePrefix ?h) (2 * 3) 2 = CHR ''z'' # ''z''"
    by (simp add: clean substr_def)
  have b3: "hashToBuffer ?h ! 3 = 0"
    using T4 [OF _ p3] by (simp add: isHexDigit_def isWhiteSpace_def)
  have b4: "hashToBuffer ?h ! 4 = 0"
    using T5 [of 4] by (simp add: clean)
  have "take 64 (removePrefix ''phash:1g-1fFzz'') = take 64 (removePrefix ?h)"
    by (simp add: clean)
  then have pre: "hashToBuffer ''phash:1g-1fFzz'' = hashToBuffer ?h"
    using T by blast
  have "unat (getUint32 (hashToBuffer ?h) 0)
        = unat (hashToBuffer ?h ! 0) + 2 ^ 8 * unat (hashToBuffer ?h ! (0 + 1))
          + 2 ^ 16 * unat (hashToBuffer ?h ! (0 + 2))
          + 2 ^ 24 * unat (hashToBuffer ?h ! (0 + 3))"
    using T by blast
  then have w: "unat (getUint32 (hashToBuffer ?h) 0) = 1 + 2 ^ 8 * 255 + 2 ^ 16 * 255"
    unfolding add_0 b0 b1 b2 b3 by simp
  show ?thesis
    by (intro conjI len b0 b1 b2 b3 b4 pre w)
qed

text \<open>
  The claim as the specification states it fails for a pair that \<^verbatim>\<open>parseInt\<close> reads in
  part: \<^verbatim>\<open>1g\<close> is not a pair of hexadecimal digits and decodes to 1, and \<^verbatim>\<open>-1\<close> decodes
  to 255.
\<close>

theorem hex_pair_counterexample:
  "hashToBuffer ''1g'' ! 0 = 1 \<and> hashToBuffer_spec ''1g'' ! 0 = 0 \<and>
   hashToBuffer ''-1'' ! 0 = 255 \<and> hashToBuffer_spec ''-1'' ! 0 = 0"
  by code_simp

section \<open>Gravity\<close>

lemma times_number_commute: "(u::number) * v = v * u"
  by (cases u; cases v) (simp_all add: inf_of_def mult.commute)

lemma times_number_one: "Fin 1 * u = u"
  by (cases u) (simp_all add: inf_of_def)

lemma square_difference_sym: "((u::number) - v) * (u - v) = (v - u) * (v - u)"
proof (cases u; cases v)
  fix a b assume "u = Fin a" "v = Fin b"
  moreover have "(a - b) * (a - b) = (b - a) * (b - a)"
    by (simp add: algebra_simps)
  ultimately show ?thesis
    by (simp add: minus_number_def)
qed (simp_all add: minus_number_def inf_of_def)

lemma distanceTo_sym: "distanceTo a b = distanceTo b a"
  by (simp add: distanceTo_def Let_def square_difference_sym [of "c_x (coordinates a)"]
      square_difference_sym [of "c_y (coordinates a)"] square_difference_sym [of "c_z (coordinates a)"])

lemma distanceTo_self:
  assumes "is_finite (c_x (coordinates a))" "is_finite (c_y (coordinates a))"
    "is_finite (c_z (coordinates a))"
  shows "distanceTo a a = Fin 0"
proof -
  obtain x y z where "c_x (coordinates a) = Fin x" "c_y (coordinates a) = Fin y"
    "c_z (coordinates a) = Fin z"
    using assms by (metis is_finite.elims(2))
  then show ?thesis
    by (simp add: distanceTo_def Let_def minus_number_def)
qed

lemma hashToOrbit_cartesian:
  "c_x (hashToOrbit h) = c_r (hashToOrbit h) * Math_sin (c_phi (hashToOrbit h)) * Math_cos (c_theta (hashToOrbit h))"
  "c_y (hashToOrbit h) = c_r (hashToOrbit h) * Math_sin (c_phi (hashToOrbit h)) * Math_sin (c_theta (hashToOrbit h))"
  "c_z (hashToOrbit h) = c_r (hashToOrbit h) * Math_cos (c_phi (hashToOrbit h))"
  by (simp_all add: hashToOrbit_def Let_def)

lemma hashToOrbit_cartesian_finite:
  "is_finite (c_x (hashToOrbit h))" "is_finite (c_y (hashToOrbit h))"
  "is_finite (c_z (hashToOrbit h))"
  unfolding hashToOrbit_cartesian
  by (simp_all add: hashToOrbit_r hashToOrbit_theta hashToOrbit_phi)

text \<open>
  C7: \<^verbatim>\<open>gravitationalPull\<close> gives the same number for \<open>(a, b)\<close> and \<open>(b, a)\<close>; at distance
  exactly 0 it is Infinity, and otherwise \<open>G * luminosity a * luminosity b / distance\<^sup>2\<close>
  with \<open>G = 1\<close>; for every body \<open>a\<close> of the factory the pull of \<open>a\<close> on itself is Infinity.
\<close>

theorem gravitationalPull_symmetric:
  "gravitationalPull a b = gravitationalPull b a \<and>
   (distanceTo a b = Fin 0 \<longrightarrow> gravitationalPull a b = PInf) \<and>
   (distanceTo a b \<noteq> Fin 0 \<longrightarrow>
      gravitationalPull a b
        = (Fin 1 * luminosity a * luminosity b) / (distanceTo a b * distanceTo a b)) \<and>
   (createCelestialBody k h es = Inr a \<longrightarrow> gravitationalPull a a = PInf)"
proof -
  have sym: "gravitationalPull a b = gravitationalPull b a"
    by (simp add: gravitationalPull_def Let_def distanceTo_sym [of a b] times_number_one
        times_number_commute [of "luminosity a"])
  have self: "gravitationalPull a a = PInf" if "createCelestialBody k h es = Inr a"
  proof -
    have "coordinates a = hashToOrbit h"
      using that by (rule createCelestialBody_fields(4))
    then have "distanceTo a a = Fin 0"
      by (intro distanceTo_self) (simp_all add: hashToOrbit_cartesian_finite)
    then show ?thesis
      by (simp add: gravitationalPull_def)
  qed
  show ?thesis
    using sym self by (simp add: gravitationalPull_def Let_def)
qed

lemma hashToBuffer_f401: "hashToBuffer ''f401'' = [244, 1] @ replicate 30 0"
  by code_simp

lemma hashToBuffer_8e03: "hashToBuffer ''8e03'' = [142, 3] @ replicate 30 0"
  by code_simp

lemma hashToOrbit_f401:
  "c_r (hashToOrbit ''f401'') = Fin (1 / 2)"
  "c_theta (hashToOrbit ''f401'') = Fin 0"
  "c_phi (hashToOrbit ''f401'') = Fin 0"
  by (simp_all add: hashToOrbit_r hashToOrbit_theta hashToOrbit_phi hashToBuffer_f401
      getUint32_def nth_Cons')

lemma hashToOrbit_8e03: "c_r (hashToOrbit ''8e03'') = Fin (91 / 100)"
  by (simp add: hashToOrbit_r hashToBuffer_8e03 getUint32_def nth_Cons')

lemma createCelestialBody_coordinates:
  "coordinates (projr (createCelestialBody k h es)) = hashToOrbit h"
  by (simp add: createCelestialBody_def Let_def)

lemma hashToOrbit_zeros_cartesian:
  "c_x (hashToOrbit ''0000000000000000000000000000000000000000000000000000000000000000'') = Fin 0"
  "c_y (hashToOrbit ''0000000000000000000000000000000000000000000000000000000000000000'') = Fin 0"
  "c_z (hashToOrbit ''0000000000000000000000000000000000000000000000000000000000000000'') = Fin 0"
  by (simp_all add: hashToOrbit_cartesian hashToOrbit_zeros_r hashToOrbit_zeros_theta
      hashToOrbit_zeros_phi)

lemma hashToOrbit_f401_cartesian:
  "c_x (hashToOrbit ''f401'') = Fin 0"
  "c_y (hashToOrbit ''f401'') = Fin 0"
  "c_z (hashToOrbit ''f401'') = Fin (1 / 2)"
  by (simp_all add: hashToOrbit_cartesian hashToOrbit_f401)

lemma createCelestialBody_unit_luminosity:
  "luminosity (projr (createCelestialBody k h [Fin 1])) = Fin (1 / 2)"
  by (simp add: createCelestialBody_def Let_def)

theorem gravitationalPull_symmetric_witness:
  "gravitationalPull (projr (createCelestialBody ''a'' ''0000000000000000000000000000000000000000000000000000000000000000'' [Fin 1]))
      (projr (createCelestialBody ''b'' ''f401'' [Fin 1]))
     = gravitationalPull (projr (createCelestialBody ''b'' ''f401'' [Fin 1]))
         (projr (createCelestialBody ''a'' ''0000000000000000000000000000000000000000000000000000000000000000'' [Fin 1])) \<and>
   distanceTo (projr (createCelestialBody ''a'' ''0000000000000000000000000000000000000000000000000000000000000000'' [Fin 1]))
      (projr (createCelestialBody ''b'' ''f401'' [Fin 1])) = Fin (1 / 2) \<and>
   gravitationalPull (projr (createCelestialBody ''a'' ''0000000000000000000000000000000000000000000000000000000000000000'' [Fin 1]))
      (projr (createCelestialBody ''b'' ''f401'' [Fin 1])) = Fin 1 \<and>
   distanceTo (projr (createCelestialBody ''a'' ''0000000000000000000000000000000000000000000000000000000000000000'' [Fin 1]))
      (projr (createCelestialBody ''a'' ''0000000000000000000000000000000000000000000000000000000000000000'' [Fin 1])) = Fin 0 \<and>
   gravitationalPull (projr (createCelestialBody ''a'' ''0000000000000000000000000000000000000000000000000000000000000000'' [Fin 1]))
      (projr (createCelestialBody ''a'' ''0000000000000000000000000000000000000000000000000000000000000000'' [Fin 1])) = PInf"
proof -
  let ?a = "projr (createCelestialBody ''a'' ''0000000000000000000000000000000000000000000000000000000000000000'' [Fin 1])"
  let ?b = "projr (createCelestialBody ''b'' ''f401'' [Fin 1])"
  have "sqrt (1 / 4) = 1 / 2"
    by (simp add: real_sqrt_divide)
  then have d: "distanceTo ?a ?b = Fin (1 / 2)"
    by (simp add: distanceTo_def Let_def createCelestialBody_coordinates
        hashToOrbit_zeros_cartesian hashToOrbit_f401_cartesian minus_number_def)
  have d0: "distanceTo ?a ?a = Fin 0"
    by (simp add: distanceTo_def Let_def createCelestialBody_coordinates
        hashToOrbit_zeros_cartesian minus_number_def)
  have ne: "distanceTo ?a ?b \<noteq> Fin 0"
    by (simp add: d)
  note ab = gravitationalPull_symmetric [of ?a ?b "''a''" "''0000000000000000000000000000000000000000000000000000000000000000''" "[Fin 1]"]
  note aa = gravitationalPull_symmetric [of ?a ?a "''a''" "''0000000000000000000000000000000000000000000000000000000000000000''" "[Fin 1]"]
  have sym: "gravitationalPull ?a ?b = gravitationalPull ?b ?a"
    using ab by blast
  have "gravitationalPull ?a ?b
          = (Fin 1 * luminosity ?a * luminosity ?b) / (distanceTo ?a ?b * distanceTo ?a ?b)"
    using ab ne by blast
  then have val: "gravitationalPull ?a ?b = Fin 1"
    by (simp add: d createCelestialBody_unit_luminosity)
  have self: "gravitationalPull ?a ?a = PInf"
    using aa createCelestialBody_projr [of "''a''" "''0000000000000000000000000000000000000000000000000000000000000000''" "[Fin 1]"] by blast
  show ?thesis
    by (intro conjI sym d val d0 self)
qed

section \<open>Lagrange points\<close>

lemma pi_gt_three: "3 < pi"
proof -
  define x where "x = pi / 6"
  have x: "0 < x" "x < 1"
    using pi_gt_zero pi_less_4 by (simp_all add: x_def)
  have s: "sin x = 1 / 2"
    unfolding x_def by (rule sin_30)
  have c: "sin_coeff 0 = 0" "sin_coeff (Suc 0) = 1" "sin_coeff 2 = 0" "sin_coeff 3 = - 1 / 6"
    "sin_coeff 4 = 0"
    by (simp_all add: sin_coeff_def fact_numeral)
  have "{..<5::nat} = {0, 1, 2, 3, 4}"
    by auto
  then have sum: "(\<Sum>m<5. sin_coeff m * x ^ m) = x - x ^ 3 / 6"
    by (simp add: c)
  have "\<bar>sin x - (x - x ^ 3 / 6)\<bar> \<le> inverse (fact 5) * \<bar>x\<bar> ^ 5"
    using Maclaurin_sin_bound [of x 5] unfolding sum .
  then have "sin x \<le> x - x ^ 3 / 6 + x ^ 5 / 120"
    using x by (simp add: fact_numeral abs_if split: if_splits)
  moreover have "x ^ 5 / 120 < x ^ 3 / 6"
  proof -
    have "x ^ 5 = x ^ 3 * x ^ 2"
      by (simp add: power_add [symmetric])
    moreover have "x ^ 2 < 1"
      using x by (simp add: power_less_one_iff)
    moreover have "0 < x ^ 3"
      using x by simp
    ultimately have "x ^ 5 < x ^ 3"
      by (metis mult.right_neutral mult_strict_left_mono)
    moreover have "x ^ 3 \<le> x ^ 3 * 20"
      using \<open>0 < x ^ 3\<close> by simp
    ultimately have "x ^ 5 < x ^ 3 * 20"
      by linarith
    then show ?thesis
      by simp
  qed
  ultimately have "1 / 2 < x"
    using s by linarith
  then show ?thesis
    by (simp add: x_def)
qed

lemma Fin_mod_small_nonneg:
  assumes "0 \<le> a" "a < b"
  shows "Fin a mod Fin b = Fin a"
proof -
  have "0 \<le> a / b" "a / b < 1"
    using assms by simp_all
  then have "\<lfloor>a / b\<rfloor> = 0"
    by (simp add: floor_eq_iff)
  then show ?thesis
    using assms \<open>0 \<le> a / b\<close> by (simp add: trunc_def)
qed

lemma Fin_mod_small_neg:
  assumes "a < 0" "- b < a"
  shows "Fin a mod Fin b = Fin a"
proof -
  have b: "0 < b"
    using assms by linarith
  have "a / b < 0" "- 1 < a / b"
    using assms b by (simp_all add: divide_simps)
  then have "\<lceil>a / b\<rceil> = 0"
    by (simp add: ceiling_eq_iff)
  then show ?thesis
    using b \<open>a / b < 0\<close> by (simp add: trunc_def)
qed

lemma length_findLagrangePoints: "length (findLagrangePoints p) = 5"
  by (simp add: findLagrangePoints_def Let_def)

text \<open>
  C10: the outer point has the radius of the primary times 1.1, without a clamp, so a
  primary with \<open>r > 10/11\<close> gives a point whose radius is at least 1.
\<close>

theorem findLagrangePoints_outer_radius:
  "c_r (findLagrangePoints p ! 1) = c_r (coordinates p) * Fin (11 / 10) \<and>
   (Fin (10 / 11) < c_r (coordinates p) \<longrightarrow>
      Fin 1 \<le> c_r (findLagrangePoints p ! 1) \<and> \<not> c_r (findLagrangePoints p ! 1) < Fin 1)"
proof -
  have eq: "c_r (findLagrangePoints p ! 1) = c_r (coordinates p) * Fin (11 / 10)"
    by (simp add: findLagrangePoints_def Let_def sphericalToOrbital_def)
  have "Fin 1 \<le> u * Fin (11 / 10) \<and> \<not> u * Fin (11 / 10) < Fin 1" if "Fin (10 / 11) < u" for u
    using that by (cases u) (auto simp: less_eq_number_def inf_of_def)
  with eq show ?thesis
    by simp
qed

theorem findLagrangePoints_outer_radius_witness:
  "Fin (10 / 11) < c_r (coordinates (projr (createCelestialBody ''c'' ''8e03'' [Fin 1]))) \<and>
   c_r (findLagrangePoints (projr (createCelestialBody ''c'' ''8e03'' [Fin 1])) ! 1)
     = Fin (1001 / 1000) \<and>
   Fin 1 \<le> c_r (findLagrangePoints (projr (createCelestialBody ''c'' ''8e03'' [Fin 1])) ! 1)"
proof -
  have r: "c_r (coordinates (projr (createCelestialBody ''c'' ''8e03'' [Fin 1]))) = Fin (91 / 100)"
    by (simp add: createCelestialBody_coordinates hashToOrbit_8e03)
  have gt: "Fin (10 / 11) < c_r (coordinates (projr (createCelestialBody ''c'' ''8e03'' [Fin 1])))"
    by (simp add: r)
  show ?thesis
    using findLagrangePoints_outer_radius [of "projr (createCelestialBody ''c'' ''8e03'' [Fin 1])"] gt
    by (simp add: r less_eq_number_def)
qed

text \<open>
  C8, where the code departs from it: for every primary with an azimuth \<open>\<theta>\<close> between 0 and
  1 (the primary of the specification's vector with \<open>\<theta> = 1.0\<close>, and the body that the
  factory builds from the hash of 64 zeros, with \<open>\<theta> = 0\<close>) there are five points with
  eccentricity 0, and the remainder leaves the azimuth \<open>\<theta> - \<pi>/3\<close> of the trailing point as
  it is: a negative number, where the reduction into \<open>[0, 2\<pi>)\<close> would add \<open>2\<pi>\<close>.
\<close>

theorem findLagrangePoints_trailing_theta_negative:
  assumes "c_theta (coordinates p) = Fin t" "0 \<le> t" "t \<le> 1"
  shows "length (findLagrangePoints p) = 5 \<and>
         map c_eccentricity (findLagrangePoints p) = [Fin 0, Fin 0, Fin 0, Fin 0, Fin 0] \<and>
         c_theta (findLagrangePoints p ! 4) = c_theta (coordinates p) - Math_PI / Fin 3 \<and>
         c_theta (findLagrangePoints p ! 4) < Fin 0"
proof -
  have neg: "t - pi / 3 < 0" "- (2 * pi) < t - pi / 3"
    using assms pi_gt_three by linarith+
  have "c_theta (findLagrangePoints p ! 4) = Fin (t - pi / 3) mod Fin (2 * pi)"
    by (simp add: findLagrangePoints_def Let_def sphericalToOrbital_def assms(1) Math_PI_def
        minus_number_def)
  also have "\<dots> = Fin (t - pi / 3)"
    using neg by (rule Fin_mod_small_neg)
  finally have val: "c_theta (findLagrangePoints p ! 4) = Fin (t - pi / 3)" .
  have eq: "c_theta (findLagrangePoints p ! 4) = c_theta (coordinates p) - Math_PI / Fin 3"
    by (simp add: val assms(1) Math_PI_def minus_number_def)
  have ecc: "map c_eccentricity (findLagrangePoints p) = [Fin 0, Fin 0, Fin 0, Fin 0, Fin 0]"
    by (simp add: findLagrangePoints_def Let_def sphericalToOrbital_def)
  have lt: "c_theta (findLagrangePoints p ! 4) < Fin 0"
    using neg by (simp add: val)
  show ?thesis
    by (intro conjI length_findLagrangePoints ecc eq lt)
qed

theorem findLagrangePoints_trailing_theta_negative_witness:
  "c_theta (coordinates (projr (createCelestialBody ''c'' ''0000000000000000000000000000000000000000000000000000000000000000'' [Fin 1]))) = Fin 0 \<and>
   length (findLagrangePoints (projr (createCelestialBody ''c'' ''0000000000000000000000000000000000000000000000000000000000000000'' [Fin 1]))) = 5 \<and>
   c_theta (findLagrangePoints (projr (createCelestialBody ''c'' ''0000000000000000000000000000000000000000000000000000000000000000'' [Fin 1])) ! 4) < Fin 0 \<and>
   c_theta (coordinates vector3_primary) = Fin 1 \<and>
   c_theta (findLagrangePoints vector3_primary ! 4) < Fin 0"
proof -
  let ?z = "projr (createCelestialBody ''c'' ''0000000000000000000000000000000000000000000000000000000000000000'' [Fin 1])"
  have tz: "c_theta (coordinates ?z) = Fin 0"
    by (simp add: createCelestialBody_coordinates hashToOrbit_zeros_theta)
  have "Fin 1 mod Fin (2 * pi) = Fin 1"
    using pi_gt_three by (intro Fin_mod_small_nonneg) simp_all
  then have tv: "c_theta (coordinates vector3_primary) = Fin 1"
    by (simp add: vector3_primary_def sphericalToOrbital_def Let_def Math_PI_def)
  have b0: "(0::real) \<le> 0" "(0::real) \<le> 1" and b1: "(0::real) \<le> 1" "(1::real) \<le> 1"
    by simp_all
  note Z = findLagrangePoints_trailing_theta_negative [OF tz b0]
  note V = findLagrangePoints_trailing_theta_negative [OF tv b1]
  from Z have z5: "length (findLagrangePoints ?z) = 5"
    and zn: "c_theta (findLagrangePoints ?z ! 4) < Fin 0"
    by blast+
  from V have vn: "c_theta (findLagrangePoints vector3_primary ! 4) < Fin 0"
    by blast
  show ?thesis
    by (intro conjI tz z5 zn tv vn)
qed

end
